theory Spec2Isabelle
  imports Complex_Main
begin

section \<open>A small model of the shell, as far as the scripts use it\<close>

text \<open>
  The credential-check script is straight-line bash with functions, \<open>local\<close> variables,
  \<open>if [ ! -e ... ]\<close> tests and \<open>echo\<close>. Its run is decided by three things outside it,
  which are the inputs of the model:
  \<^item> the file system, the predicate telling which paths \<open>stat\<close> finds; the empty path
    is never found, whatever the predicate says;
  \<^item> the environment the shell inherits, a table from names to values. Its entries are
    the global variables the shell starts with, and the entry \<open>SHELLOPTS\<close>, a list of
    option names separated by colons, turns on the options it names before the first
    command runs;
  \<^item> what becomes of each line that \<open>echo\<close> writes, the first, the second and so
    on: it is written, or the write fails and \<open>echo\<close> returns 1, or the reader of a pipe
    is gone and the signal ends the shell, whose status is then 128 + 13.

  Inside the shell:
  \<^item> variables live in the global table or in the frame of a running function; bash
    scopes dynamically, so a lookup walks the frames from the innermost one outwards and
    then the globals; a frame is dropped when its function returns;
  \<^item> an unset variable expands to the empty string, unless \<open>nounset\<close> is on: then the
    expansion is an error that ends the shell with status 1, wherever it stands;
  \<^item> every command leaves an exit status; with \<open>errexit\<close> (\<open>set -e\<close>) a simple command
    with a non-zero status ends the shell, except where the command is the condition of
    an \<open>if\<close>;
  \<^item> with \<open>noexec\<close> no command runs at all, and with \<open>onecmd\<close> the shell leaves after
    its first command.

  The model is of bash itself running the script, and it answers only where the
  environment leaves bash as it is: \<open>run_script\<close> gives no result when the environment
  brings code or settings of its own, or names an option that the model does not
  implement.
\<close>

type_synonym filesystem = "string \<Rightarrow> bool"

type_synonym environment = "string \<rightharpoonup> string"

datatype written = Written | Write_error | Broken_pipe

type_synonym writes = "nat \<Rightarrow> written"

record shell =
  globals :: "string \<rightharpoonup> string"
  frames :: "(string \<rightharpoonup> string) list"
  echoed :: "string list"
  status :: nat
  errexit :: bool
  nounset :: bool
  echo_count :: nat
  tests_run :: nat

text \<open>
  A command either leaves the shell running, with its status, or ends it at once with
  a status, whatever \<open>errexit\<close> says: a failed expansion, or death by a signal.
\<close>

datatype outcome = Ok shell | Fatal nat shell

datatype run = Cont shell | Halt nat shell

type_synonym word = "shell \<Rightarrow> string option"

definition exists_path :: "filesystem \<Rightarrow> string \<Rightarrow> bool" where
  "exists_path fs p = (p \<noteq> [] \<and> fs p)"

fun lookup_frames :: "(string \<rightharpoonup> string) list \<Rightarrow> string \<Rightarrow> string option" where
  "lookup_frames [] x = None"
| "lookup_frames (f # fs) x = (case f x of Some v \<Rightarrow> Some v | None \<Rightarrow> lookup_frames fs x)"

text \<open>\<open>$x\<close>: \<open>None\<close> is the unbound-variable error.\<close>

definition param :: "string \<Rightarrow> word" where
  "param x s =
     (case lookup_frames (frames s) x of
        Some v \<Rightarrow> Some v
      | None \<Rightarrow>
          (case globals s x of
             Some v \<Rightarrow> Some v
           | None \<Rightarrow> if nounset s then None else Some []))"

definition lit :: "string \<Rightarrow> word" where
  "lit v s = Some v"

fun cat_words :: "word list \<Rightarrow> word" where
  "cat_words [] s = Some []"
| "cat_words (w # ws) s =
     (case w s of
        None \<Rightarrow> None
      | Some v \<Rightarrow> (case cat_words ws s of None \<Rightarrow> None | Some vs \<Rightarrow> Some (v @ vs)))"

fun assign_frames ::
  "(string \<rightharpoonup> string) list \<Rightarrow> string \<Rightarrow> string \<Rightarrow> (string \<rightharpoonup> string) list option" where
  "assign_frames [] x v = None"
| "assign_frames (f # fs) x v =
     (if f x \<noteq> None then Some (f(x \<mapsto> v) # fs)
      else map_option ((#) f) (assign_frames fs x v))"

definition assign :: "string \<Rightarrow> word \<Rightarrow> shell \<Rightarrow> outcome" where
  "assign x w s =
     (case w s of
        None \<Rightarrow> Fatal 1 s
      | Some v \<Rightarrow>
          (case assign_frames (frames s) x v of
             Some fs' \<Rightarrow> Ok (s\<lparr>frames := fs', status := 0\<rparr>)
           | None \<Rightarrow> Ok (s\<lparr>globals := (globals s)(x \<mapsto> v), status := 0\<rparr>)))"

definition local_var :: "string \<Rightarrow> word \<Rightarrow> shell \<Rightarrow> outcome" where
  "local_var x w s =
     (case w s of
        None \<Rightarrow> Fatal 1 s
      | Some v \<Rightarrow>
          (case frames s of
             [] \<Rightarrow> Ok (s\<lparr>status := 1\<rparr>)
           | f # fs \<Rightarrow> Ok (s\<lparr>frames := f(x \<mapsto> v) # fs, status := 0\<rparr>)))"

definition set_e :: "shell \<Rightarrow> outcome" where
  "set_e s = Ok (s\<lparr>errexit := True, status := 0\<rparr>)"

definition test_not_e :: "filesystem \<Rightarrow> word \<Rightarrow> shell \<Rightarrow> outcome" where
  "test_not_e fs w s =
     (case w s of
        None \<Rightarrow> Fatal 1 s
      | Some p \<Rightarrow>
          Ok (s\<lparr>status := (if exists_path fs p then 1 else 0), tests_run := Suc (tests_run s)\<rparr>))"

text \<open>
  \<open>echo -e\<close>: \<open>echoed\<close> collects the arguments of the \<open>echo\<close> commands that wrote their
  line.
\<close>

definition echo_e :: "writes \<Rightarrow> word \<Rightarrow> shell \<Rightarrow> outcome" where
  "echo_e out w s =
     (case w s of
        None \<Rightarrow> Fatal 1 s
      | Some v \<Rightarrow>
          (case out (echo_count s) of
             Written \<Rightarrow>
               Ok (s\<lparr>echoed := echoed s @ [v], echo_count := Suc (echo_count s), status := 0\<rparr>)
           | Write_error \<Rightarrow> Ok (s\<lparr>echo_count := Suc (echo_count s), status := 1\<rparr>)
           | Broken_pipe \<Rightarrow> Fatal 141 (s\<lparr>echo_count := Suc (echo_count s)\<rparr>)))"

definition simple :: "(shell \<Rightarrow> outcome) \<Rightarrow> shell \<Rightarrow> run" where
  "simple c s =
     (case c s of
        Fatal n s' \<Rightarrow> Halt n s'
      | Ok s' \<Rightarrow> if errexit s' \<and> status s' \<noteq> 0 then Halt (status s') s' else Cont s')"

fun block :: "(shell \<Rightarrow> run) list \<Rightarrow> shell \<Rightarrow> run" where
  "block [] s = Cont s"
| "block (c # cs) s = (case c s of Cont s' \<Rightarrow> block cs s' | Halt n s' \<Rightarrow> Halt n s')"

definition sh_if :: "(shell \<Rightarrow> outcome) \<Rightarrow> (shell \<Rightarrow> run) \<Rightarrow> shell \<Rightarrow> run" where
  "sh_if cond body s =
     (case cond s of
        Fatal n s' \<Rightarrow> Halt n s'
      | Ok s' \<Rightarrow> if status s' = 0 then body s' else Cont (s'\<lparr>status := 0\<rparr>))"

definition call :: "(shell \<Rightarrow> run) \<Rightarrow> shell \<Rightarrow> run" where
  "call body s =
     (case body (s\<lparr>frames := Map.empty # frames s\<rparr>) of
        Halt n s' \<Rightarrow> Halt n s'
      | Cont s' \<Rightarrow>
          (let s'' = s'\<lparr>frames := tl (frames s')\<rparr>
           in if errexit s'' \<and> status s'' \<noteq> 0 then Halt (status s'') s'' else Cont s''))"

text \<open>The option names of \<open>SHELLOPTS\<close>: the value cut at every colon.\<close>

fun split_colons :: "string \<Rightarrow> string list" where
  "split_colons [] = [[]]"
| "split_colons (c # cs) =
     (if c = CHR '':'' then [] # split_colons cs
      else (case split_colons cs of [] \<Rightarrow> [[c]] | w # ws \<Rightarrow> (c # w) # ws))"

definition shell_options :: "environment \<Rightarrow> string list" where
  "shell_options env = (case env ''SHELLOPTS'' of None \<Rightarrow> [] | Some v \<Rightarrow> split_colons v)"

definition init_shell :: "environment \<Rightarrow> shell" where
  "init_shell env =
     \<lparr>globals = env, frames = [], echoed = [], status = 0,
      errexit = (''errexit'' \<in> set (shell_options env)),
      nounset = (''nounset'' \<in> set (shell_options env)),
      echo_count = 0, tests_run = 0\<rparr>"

text \<open>
  The environment can also carry code of its own: a file named by \<open>BASH_ENV\<close>, which a
  shell reads before a script, the settings of \<open>BASHOPTS\<close>, one of which starts a debugger
  profile, and functions exported under \<open>BASH_FUNC_name%%\<close>, which take the place of the
  builtin of that name. What such a run does is not decided by the script, and the model
  gives no result for it. The four function names are the commands the script calls and
  does not define itself.
\<close>

definition brings_code :: "environment \<Rightarrow> bool" where
  "brings_code env =
     (env ''BASH_ENV'' \<noteq> None \<or> env ''BASHOPTS'' \<noteq> None
      \<or> env ''BASH_FUNC_set%%'' \<noteq> None \<or> env ''BASH_FUNC_local%%'' \<noteq> None
      \<or> env ''BASH_FUNC_[%%'' \<noteq> None \<or> env ''BASH_FUNC_echo%%'' \<noteq> None)"

text \<open>
  The options of \<open>SHELLOPTS\<close> that the model knows: the three that every bash has on and
  that change nothing for quoted words, and the four that the model implements. Any other
  name (\<open>keyword\<close>, which takes the assignments away from \<open>local\<close>, or \<open>xtrace\<close>, which
  expands \<open>PS4\<close> before every command) puts the run outside the model.
\<close>

definition plain_options :: "string list" where
  "plain_options = [''braceexpand'', ''hashall'', ''interactive-comments'', ''errexit'']"

definition modelled_options :: "string list" where
  "modelled_options = plain_options @ [''nounset'', ''noexec'', ''onecmd'']"

text \<open>
  A script as a whole: nothing of it under \<open>noexec\<close>, its first command under \<open>onecmd\<close>,
  and all its commands otherwise.
\<close>

definition run_script :: "(shell \<Rightarrow> run) list \<Rightarrow> environment \<Rightarrow> run option" where
  "run_script cs env =
     (if brings_code env \<or> \<not> set (shell_options env) \<subseteq> set modelled_options then None
      else if ''noexec'' \<in> set (shell_options env) then Some (Cont (init_shell env))
      else if ''onecmd'' \<in> set (shell_options env) then Some (block (take 1 cs) (init_shell env))
      else Some (block cs (init_shell env)))"

definition final_shell :: "run \<Rightarrow> shell" where
  "final_shell r = (case r of Cont s \<Rightarrow> s | Halt n s \<Rightarrow> s)"

definition exit_status :: "run \<Rightarrow> nat" where
  "exit_status r = (case r of Cont s \<Rightarrow> status s | Halt n s \<Rightarrow> n)"



section \<open>The credential-check script\<close>

text \<open>
  The script checks that the credentials for AWS and for the Google spreadsheet are in
  place. Each message is the argument handed to \<open>echo -e\<close>, with the two characters
  backslash and \<open>e\<close> where the script writes them (\<open>echo -e\<close> prints them as the
  escape character that switches the colour).
\<close>

definition esc :: string where
  "esc = [CHR 0x5C, CHR ''e'']"

definition aws_warning :: "string \<Rightarrow> string" where
  "aws_warning f =
     esc @ ''[33mWARNING'' @ esc @ ''[0m: AWS credential check failed: can't find '' @ f @ '' file.''"

definition google_warning :: "string \<Rightarrow> string" where
  "google_warning f =
     esc @ ''[33mWARNING'' @ esc @ ''[0m: Google API credential check failed: can't find '' @ f @ '' file.''"

definition echo_warning :: "writes \<Rightarrow> (string \<Rightarrow> string) \<Rightarrow> string \<Rightarrow> shell \<Rightarrow> outcome" where
  "echo_warning out msg x = echo_e out (\<lambda>s. map_option msg (param x s))"

definition test_aws :: "filesystem \<Rightarrow> writes \<Rightarrow> shell \<Rightarrow> run" where
  "test_aws fs out = block
     [simple (local_var ''_aws_cred_file'' (cat_words [param ''AWS_VOLUME'', lit ''credentials''])),
      simple (local_var ''_aws_conf_file'' (cat_words [param ''AWS_VOLUME'', lit ''config''])),
      sh_if (test_not_e fs (param ''_aws_cred_file''))
        (block [simple (echo_warning out aws_warning ''_aws_cred_file'')]),
      sh_if (test_not_e fs (param ''_aws_conf_file''))
        (block [simple (echo_warning out aws_warning ''_aws_conf_file'')])]"

definition test_gspread_pandas :: "filesystem \<Rightarrow> writes \<Rightarrow> shell \<Rightarrow> run" where
  "test_gspread_pandas fs out = block
     [simple (local_var ''_google_secret_file''
        (cat_words [param ''GSPREAD_PANDAS_VOLUME'', lit ''google_secret.json''])),
      simple (local_var ''_google_cred_file''
        (cat_words [param ''GSPREAD_PANDAS_VOLUME'', lit ''creds/default''])),
      sh_if (test_not_e fs (param ''_aws_cred_file''))
        (block [simple (echo_warning out google_warning ''_google_secret_file'')]),
      sh_if (test_not_e fs (param ''_google_cred_file''))
        (block [simple (echo_warning out google_warning ''_google_cred_file'')])]"

definition check_credentials :: "filesystem \<Rightarrow> writes \<Rightarrow> environment \<Rightarrow> run option" where
  "check_credentials fs out env = run_script
     [simple set_e,
      simple (assign ''AWS_VOLUME'' (cat_words [param ''HOME'', lit ''/.aws/''])),
      simple (assign ''GSPREAD_PANDAS_VOLUME''
        (cat_words [param ''HOME'', lit ''/.config/gspread_pandas/''])),
      call (test_aws fs out),
      call (test_gspread_pandas fs out)]
     env"

text \<open>The four paths the script names, for a given environment.\<close>

definition home :: "environment \<Rightarrow> string" where
  "home env = (case env ''HOME'' of Some v \<Rightarrow> v | None \<Rightarrow> [])"

definition aws_cred_file :: "environment \<Rightarrow> string" where
  "aws_cred_file env = home env @ ''/.aws/credentials''"

definition aws_conf_file :: "environment \<Rightarrow> string" where
  "aws_conf_file env = home env @ ''/.aws/config''"

definition google_secret_file :: "environment \<Rightarrow> string" where
  "google_secret_file env = home env @ ''/.config/gspread_pandas/google_secret.json''"

definition google_cred_file :: "environment \<Rightarrow> string" where
  "google_cred_file env = home env @ ''/.config/gspread_pandas/creds/default''"

definition missing :: "filesystem \<Rightarrow> (string \<Rightarrow> string) \<Rightarrow> string \<Rightarrow> string list" where
  "missing fs msg f = (if exists_path fs f then [] else [msg f])"


definition every_file :: filesystem where
  "every_file p = True"


definition all_written :: writes where
  "all_written k = Written"


definition tests_of :: "run option \<Rightarrow> nat option" where
  "tests_of r = map_option (\<lambda>x. tests_run (final_shell x)) r"

definition exit_of_run :: "run option \<Rightarrow> nat option" where
  "exit_of_run r = map_option exit_status r"

definition echoed_by :: "run option \<Rightarrow> string list option" where
  "echoed_by r = map_option (\<lambda>x. echoed (final_shell x)) r"

text \<open>
  The path that the first test of \<open>test_gspread_pandas\<close> looks at when the function is
  called from the top of the script: the value of the global \<open>_aws_cred_file\<close>, or the
  empty path.
\<close>

definition tested_path :: "shell \<Rightarrow> string" where
  "tested_path s = (case globals s ''_aws_cred_file'' of Some v \<Rightarrow> v | None \<Rightarrow> [])"

text \<open>
  The lines of a run that reaches the end of the script with every line written.
\<close>

definition warnings :: "filesystem \<Rightarrow> environment \<Rightarrow> string list" where
  "warnings fs env =
     missing fs aws_warning (aws_cred_file env) @ missing fs aws_warning (aws_conf_file env)
     @ (if exists_path fs (case env ''_aws_cred_file'' of Some v \<Rightarrow> v | None \<Rightarrow> []) then []
        else [google_warning (google_secret_file env)])
     @ missing fs google_warning (google_cred_file env)"

definition home_u_nounset :: environment where
  "home_u_nounset = [''HOME'' \<mapsto> ''/home/u'', ''SHELLOPTS'' \<mapsto> ''nounset'']"



section \<open>The markdown linter script\<close>

text \<open>
  \<open>lint_md.sh\<close> runs under \<open>set -eux\<close> and is a straight line of external commands. The
  world outside the script is a parameter: the exit status and the output of every
  external command (named by the line of the script that runs it and by its arguments),
  and what an unquoted expansion becomes after field splitting and pathname expansion
  (which depends on the directory the script runs in).
\<close>

record world =
  exit_of :: "nat \<Rightarrow> string list \<Rightarrow> nat"
  output_of :: "nat \<Rightarrow> string list \<Rightarrow> string"
  split_fields :: "string \<Rightarrow> string list"

text \<open>
  An external command that the script runs: the line it stands on, its words, and whether
  \<open>errexit\<close> looks at its status (it does not inside a command substitution that is
  not the last one of an assignment, nor inside the words of another command).
\<close>

record command =
  line :: nat
  argv :: "string list"
  checked :: bool

definition cmd :: "nat \<Rightarrow> string list \<Rightarrow> command" where
  "cmd l ws = \<lparr>line = l, argv = ws, checked = True\<rparr>"

definition subst :: "nat \<Rightarrow> string list \<Rightarrow> command" where
  "subst l ws = \<lparr>line = l, argv = ws, checked = False\<rparr>"

definition TMP_FILENAME :: string where
  "TMP_FILENAME = ''/tmp/tmp.lint_markdown.Dockerfile''"

definition DOCKER_CONTAINER_NAME :: string where
  "DOCKER_CONTAINER_NAME = ''sorrentum_mdlint''"

text \<open>\<open>$@\<close> inside a double-quoted assignment: the arguments joined by single spaces.\<close>

fun join_args :: "string list \<Rightarrow> string" where
  "join_args [] = []"
| "join_args [a] = a"
| "join_args (a # b # rest) = a @ '' '' @ join_args (b # rest)"

text \<open>
  The commands of the script in order. The two here-documents are \<open>cat\<close> with its
  output redirected. Line 41 assigns \<open>USER\<close> from two command substitutions, each with a
  \<open>logname\<close> nested in its words; the status of an assignment is the status of its last
  substitution, \<open>id -g $(logname)\<close>, and the other three commands of the line cannot end
  the script. \<open>$TMP_FILENAME\<close> and \<open>$DOCKER_CONTAINER_NAME\<close> are unquoted, but their
  values hold no blank and no pattern character, so each stays one word; \<open>$CMD\<close> holds
  the caller's arguments and is split by the world.
\<close>

definition lint_md_commands :: "world \<Rightarrow> string list \<Rightarrow> command list" where
  "lint_md_commands w args =
     (let logname = output_of w 41 [''logname''];
          WORKDIR = output_of w 42 [''realpath'', ''.''];
          MOUNT = ''type=bind,source='' @ WORKDIR @ '',target='' @ WORKDIR;
          CMD = ''bash -c ./run_linter.sh '' @ join_args args
      in [cmd 13 [''cat''],
          cmd 39 [''docker'', ''build'', ''-f'', TMP_FILENAME, ''-t'', DOCKER_CONTAINER_NAME, ''.''],
          subst 41 [''logname''],
          subst 41 ([''id'', ''-u''] @ split_fields w logname),
          subst 41 [''logname''],
          cmd 41 ([''id'', ''-g''] @ split_fields w logname),
          cmd 42 [''realpath'', ''.''],
          cmd 46 [''cat''],
          cmd 54 [''chmod'', ''+x'', ''./run_linter.sh''],
          cmd 59 ([''docker'', ''run'', ''--rm'', ''-it'', ''--workdir'', WORKDIR, ''--mount'', MOUNT,
                   ''markdownlint:latest''] @ split_fields w CMD),
          cmd 62 [''rm'', ''run_linter.sh''],
          cmd 63 [''rm'', TMP_FILENAME]])"

text \<open>
  Under \<open>errexit\<close> the first checked command that fails is the last one that runs, and
  its status is the status of the script.
\<close>

fun run_errexit :: "world \<Rightarrow> command list \<Rightarrow> command list \<times> nat" where
  "run_errexit w [] = ([], 0)"
| "run_errexit w (c # cs) =
     (if checked c \<and> exit_of w (line c) (argv c) \<noteq> 0 then ([c], exit_of w (line c) (argv c))
      else (c # fst (run_errexit w cs), snd (run_errexit w cs)))"

definition lint_md :: "world \<Rightarrow> string list \<Rightarrow> command list \<times> nat" where
  "lint_md w args = run_errexit w (lint_md_commands w args)"

text \<open>
  What docker is asked to do. \<open>docker run [OPTIONS] IMAGE [COMMAND] [ARG...]\<close>: of the
  options the script passes, \<open>--rm\<close> and \<open>-it\<close> stand alone and \<open>--workdir\<close> and \<open>--mount\<close>
  take the next word; the first word after the options is the image.
  \<open>docker build -t NAME\<close> tags the image it builds; a name without a tag means
  \<open>NAME:latest\<close>.
\<close>

fun first_operand :: "string list \<Rightarrow> string option" where
  "first_operand [] = None"
| "first_operand (a # rest) =
     (if a = ''--workdir'' \<or> a = ''--mount'' then first_operand (tl rest)
      else if a = ''--rm'' \<or> a = ''-it'' then first_operand rest
      else Some a)"

fun docker_run_image :: "string list \<Rightarrow> string option" where
  "docker_run_image (a # b # rest) =
     (if a = ''docker'' \<and> b = ''run'' then first_operand rest else None)"
| "docker_run_image _ = None"

fun option_value :: "string \<Rightarrow> string list \<Rightarrow> string option" where
  "option_value opt (a # b # rest) = (if a = opt then Some b else option_value opt (b # rest))"
| "option_value opt _ = None"

fun docker_build_tag :: "string list \<Rightarrow> string option" where
  "docker_build_tag (a # b # rest) =
     (if a = ''docker'' \<and> b = ''build'' then option_value ''-t'' rest else None)"
| "docker_build_tag _ = None"

definition image_ref :: "string \<Rightarrow> string" where
  "image_ref name = (if CHR '':'' \<in> set name then name else name @ '':latest'')"

definition images_run :: "command list \<Rightarrow> string list" where
  "images_run cs = map image_ref (List.map_filter (\<lambda>c. docker_run_image (argv c)) cs)"

definition images_built :: "command list \<Rightarrow> string list" where
  "images_built cs = map image_ref (List.map_filter (\<lambda>c. docker_build_tag (argv c)) cs)"

definition all_succeed :: "world \<Rightarrow> world" where
  "all_succeed w = w\<lparr>exit_of := \<lambda>l argv. 0\<rparr>"


section \<open>The recorded run of the order processor\<close>

text \<open>
  The order processor, the DAG runner and the portfolio are known only through the run that
  the repository records: the configuration, the dump of the objects after the run, the event
  signature of the DAG runner, the portfolio signature and the execution signature of
  \<open>OrderProcessor.run_loop\<close> with its 45 logged events. The definitions of this section
  transcribe that record, line by line. Every timestamp of the record is on 2000-01-01 in
  America/New_York (\<open>-05:00\<close>); a time is the number of seconds since midnight of that day.
\<close>

definition clock :: "int \<Rightarrow> int \<Rightarrow> int \<Rightarrow> int" where
  "clock h m s = (h * 60 + m) * 60 + s"

definition bar_floor :: "int \<Rightarrow> int \<Rightarrow> int" where
  "bar_floor d t = t - t mod d"

record fill =
  asset_id :: nat
  fill_id :: nat
  timestamp :: int
  num_shares :: rat
  price :: rat

text \<open>
  The lines of the execution signature. \<open>IsDone\<close> carries \<open>wall_clock_time_tmp\<close>,
  \<open>termination_condition\<close>, \<open>termination_condition_tmp\<close> and \<open>is_done\<close>, in the order the
  line prints them; the untruncated \<open>wall_clock_time\<close> is masked in the record.
\<close>

datatype log_event =
    Start
  | IsDone int int int bool
  | WaitingForOrders string
  | DiffNumRows nat
  | WaitingToAccept int
  | WaitUntilDeadline int
  | ReceivedFills "fill list"
  | ExitingLoop nat int

type_synonym log = "(int \<times> log_event) list"

definition execution_signature :: log where
  "execution_signature =
     [
      (clock 9 35 0, Start),
      (clock 9 35 0, IsDone (clock 9 35 0) (clock 10 10 5) (clock 10 10 0) False),
      (clock 9 35 0, WaitingForOrders ''submitted_orders''),
      (clock 9 35 6, DiffNumRows 1),
      (clock 9 35 6, WaitingToAccept 3),
      (clock 9 35 9, WaitUntilDeadline (clock 9 40 0)),
      (clock 9 40 0, ReceivedFills
        [\<lparr>asset_id = 101, fill_id = 0, timestamp = clock 9 40 0, num_shares = (- 994.035785288), price = 101.8\<rparr>]),
      (clock 9 40 0, IsDone (clock 9 40 0) (clock 10 10 5) (clock 10 10 0) False),
      (clock 9 40 0, WaitingForOrders ''submitted_orders''),
      (clock 9 40 6, DiffNumRows 1),
      (clock 9 40 6, WaitingToAccept 3),
      (clock 9 40 9, WaitUntilDeadline (clock 9 45 0)),
      (clock 9 45 0, ReceivedFills
        [\<lparr>asset_id = 101, fill_id = 1, timestamp = clock 9 45 0, num_shares = 1976.354056408, price = 100.6\<rparr>]),
      (clock 9 45 0, IsDone (clock 9 45 0) (clock 10 10 5) (clock 10 10 0) False),
      (clock 9 45 0, WaitingForOrders ''submitted_orders''),
      (clock 9 45 6, DiffNumRows 1),
      (clock 9 45 6, WaitingToAccept 3),
      (clock 9 45 9, WaitUntilDeadline (clock 9 50 0)),
      (clock 9 50 0, ReceivedFills
        [\<lparr>asset_id = 101, fill_id = 2, timestamp = clock 9 50 0, num_shares = (- 1976.354056408), price = 101.8\<rparr>]),
      (clock 9 50 0, IsDone (clock 9 50 0) (clock 10 10 5) (clock 10 10 0) False),
      (clock 9 50 0, WaitingForOrders ''submitted_orders''),
      (clock 9 50 6, DiffNumRows 1),
      (clock 9 50 6, WaitingToAccept 3),
      (clock 9 50 9, WaitUntilDeadline (clock 9 55 0)),
      (clock 9 55 0, ReceivedFills
        [\<lparr>asset_id = 101, fill_id = 3, timestamp = clock 9 55 0, num_shares = 1976.354056408, price = 100.6\<rparr>]),
      (clock 9 55 0, IsDone (clock 9 55 0) (clock 10 10 5) (clock 10 10 0) False),
      (clock 9 55 0, WaitingForOrders ''submitted_orders''),
      (clock 9 55 6, DiffNumRows 1),
      (clock 9 55 6, WaitingToAccept 3),
      (clock 9 55 9, WaitUntilDeadline (clock 10 0 0)),
      (clock 10 0 0, ReceivedFills
        [\<lparr>asset_id = 101, fill_id = 4, timestamp = clock 10 0 0, num_shares = (- 1976.354056408), price = 101.8\<rparr>]),
      (clock 10 0 0, IsDone (clock 10 0 0) (clock 10 10 5) (clock 10 10 0) False),
      (clock 10 0 0, WaitingForOrders ''submitted_orders''),
      (clock 10 0 6, DiffNumRows 1),
      (clock 10 0 6, WaitingToAccept 3),
      (clock 10 0 9, WaitUntilDeadline (clock 10 5 0)),
      (clock 10 5 0, ReceivedFills
        [\<lparr>asset_id = 101, fill_id = 5, timestamp = clock 10 5 0, num_shares = 1976.354056408, price = 100.6\<rparr>]),
      (clock 10 5 0, IsDone (clock 10 5 0) (clock 10 10 5) (clock 10 10 0) False),
      (clock 10 5 0, WaitingForOrders ''submitted_orders''),
      (clock 10 5 6, DiffNumRows 1),
      (clock 10 5 6, WaitingToAccept 3),
      (clock 10 5 9, WaitUntilDeadline (clock 10 10 0)),
      (clock 10 10 0, ReceivedFills
        [\<lparr>asset_id = 101, fill_id = 6, timestamp = clock 10 10 0, num_shares = (- 1976.354056408), price = 101.8\<rparr>]),
      (clock 10 10 0, IsDone (clock 10 10 0) (clock 10 10 5) (clock 10 10 0) True),
      (clock 10 10 0, ExitingLoop 7 (clock 10 10 5))
     ]"

text \<open>\<open>order_processor_config\<close>, and the dump of the \<open>OrderProcessor\<close> object after the run.\<close>

record order_processor_config =
  max_wait_time_for_order_in_secs :: int
  duration_in_secs :: int

definition order_processor_config_object :: order_processor_config where
  "order_processor_config_object =
     \<lparr>max_wait_time_for_order_in_secs = 305, duration_in_secs = 2105\<rparr>"

record order_processor =
  bar_duration_in_secs :: int
  termination_condition :: int
  max_wait_time_for_order_in_secs :: int
  delay_to_accept_in_secs :: int
  delay_to_fill_in_secs :: int
  start_timestamp :: int
  end_timestamp :: int
  num_accepted_target_lists :: nat
  num_accepted_orders :: nat
  num_filled_orders :: nat

definition order_processor_object :: order_processor where
  "order_processor_object =
     \<lparr>bar_duration_in_secs = 300,
      termination_condition = clock 10 10 5,
      max_wait_time_for_order_in_secs = 305,
      delay_to_accept_in_secs = 3,
      delay_to_fill_in_secs = 10,
      start_timestamp = clock 9 35 0,
      end_timestamp = clock 10 10 0,
      num_accepted_target_lists = 7,
      num_accepted_orders = 7,
      num_filled_orders = 7\<rparr>"

text \<open>\<open>dag_runner_config\<close> and the events the \<open>RealTimeDagRunner\<close> recorded.\<close>

record dag_runner_config =
  bar_duration_in_secs :: int
  rt_timeout_in_secs_or_time :: int

definition dag_runner_config_object :: dag_runner_config where
  "dag_runner_config_object = \<lparr>bar_duration_in_secs = 300, rt_timeout_in_secs_or_time = 2100\<rparr>"

record event =
  num_it :: nat
  current_time :: int

definition events :: "event list" where
  "events =
     [\<lparr>num_it = 1, current_time = clock 9 35 0\<rparr>,
      \<lparr>num_it = 2, current_time = clock 9 40 0\<rparr>,
      \<lparr>num_it = 3, current_time = clock 9 45 0\<rparr>,
      \<lparr>num_it = 4, current_time = clock 9 50 0\<rparr>,
      \<lparr>num_it = 5, current_time = clock 9 55 0\<rparr>,
      \<lparr>num_it = 6, current_time = clock 10 0 0\<rparr>,
      \<lparr>num_it = 7, current_time = clock 10 5 0\<rparr>]"

text \<open>
  The \<open>executed_trades_shares\<close> table of the portfolio signature (asset 101). A row is
  stamped with whole seconds and microseconds: \<open>09:35:05.100000\<close> is
  \<open>(clock 9 35 5, 100000)\<close>.
\<close>

type_synonym ledger = "((int \<times> nat) \<times> rat) list"

definition executed_trades_shares :: ledger where
  "executed_trades_shares =
     [((clock 9 35 5, 100000), 0.00),
      ((clock 9 40 5, 100000), - 994.04),
      ((clock 9 45 5, 100000), 1976.35),
      ((clock 9 50 5, 100000), - 1976.35),
      ((clock 9 55 5, 100000), 1976.35),
      ((clock 10 0 5, 100000), - 1976.35),
      ((clock 10 5 5, 100000), 1976.35)]"

text \<open>
  One turn of the polling loop, as the signature logs it: the \<open>is_done\<close> check that
  lets the loop go on, the wait for a row in the table, the row count, the acceptance
  delay, the wait for the deadline and the fills.
\<close>

record iteration =
  checked_at :: int
  polled_at :: int
  polled_table :: string
  row_at :: int
  diff_num_rows :: nat
  accepting_at :: int
  accepting_delay :: int
  accepted_at :: int
  deadline :: int
  fills_at :: int
  fills :: "fill list"

fun iterations :: "log \<Rightarrow> iteration list" where
  "iterations (a # b # c # d # e # f # rest) =
     (case (snd a, snd b, snd c, snd d, snd e, snd f) of
        (IsDone w tc tct False, WaitingForOrders tbl, DiffNumRows n, WaitingToAccept secs,
         WaitUntilDeadline dl, ReceivedFills fs) \<Rightarrow>
          \<lparr>checked_at = fst a, polled_at = fst b, polled_table = tbl, row_at = fst c,
           diff_num_rows = n, accepting_at = fst d, accepting_delay = secs, accepted_at = fst e,
           deadline = dl, fills_at = fst f, fills = fs\<rparr> # iterations rest
      | _ \<Rightarrow> [])"
| "iterations _ = []"

text \<open>What is left of the log after its complete turns.\<close>

fun after_iterations :: "log \<Rightarrow> log" where
  "after_iterations (a # b # c # d # e # f # rest) =
     (case (snd a, snd b, snd c, snd d, snd e, snd f) of
        (IsDone w tc tct False, WaitingForOrders tbl, DiffNumRows n, WaitingToAccept secs,
         WaitUntilDeadline dl, ReceivedFills fs) \<Rightarrow> after_iterations rest
      | _ \<Rightarrow> a # b # c # d # e # f # rest)"
| "after_iterations l = l"

text \<open>Every \<open>is_done\<close> check of the log, with the event logged right after it.\<close>

record check =
  wall_clock_time_tmp :: int
  check_termination_condition :: int
  termination_condition_tmp :: int
  is_done :: bool
  followed_by :: "log_event option"

fun checks :: "log \<Rightarrow> check list" where
  "checks [] = []"
| "checks ((t, IsDone w tc tct dn) # rest) =
     \<lparr>wall_clock_time_tmp = w, check_termination_condition = tc, termination_condition_tmp = tct,
      is_done = dn, followed_by = (case rest of [] \<Rightarrow> None | x # xs \<Rightarrow> Some (snd x))\<rparr>
     # checks rest"
| "checks (x # rest) = checks rest"

fun is_waiting :: "log_event option \<Rightarrow> bool" where
  "is_waiting (Some (WaitingForOrders tbl)) = True"
| "is_waiting _ = False"

fun is_exit :: "log_event option \<Rightarrow> bool" where
  "is_exit (Some (ExitingLoop n tc)) = True"
| "is_exit _ = False"

fun all_fills :: "log \<Rightarrow> fill list" where
  "all_fills [] = []"
| "all_fills ((t, ReceivedFills fs) # rest) = fs @ all_fills rest"
| "all_fills (x # rest) = all_fills rest"

text \<open>The row of a ledger stamped within the bar that starts at a given time, if any.\<close>

fun snapshot_of_bar :: "ledger \<Rightarrow> int \<Rightarrow> rat option" where
  "snapshot_of_bar [] bar = None"
| "snapshot_of_bar (r # rs) bar =
     (if bar_floor 300 (fst (fst r)) = bar then Some (snd r) else snapshot_of_bar rs bar)"

definition nonzero_rows :: "ledger \<Rightarrow> ledger" where
  "nonzero_rows l = filter (\<lambda>r. snd r \<noteq> 0) l"

text \<open>Two numbers agree to the two decimals that the portfolio signature prints.\<close>

definition same_to_2_decimals :: "rat \<Rightarrow> rat \<Rightarrow> bool" where
  "same_to_2_decimals shown exact = (\<bar>shown - exact\<bar> \<le> 0.005)"


section \<open>Properties of the credential-check script\<close>

lemmas cmd_defs = simple_def sh_if_def call_def local_var_def test_not_e_def echo_e_def
  echo_warning_def param_def lit_def Let_def

lemmas path_defs = home_def aws_cred_file_def aws_conf_file_def google_secret_file_def google_cred_file_def

lemmas top_defs = check_credentials_def run_script_def init_shell_def set_e_def assign_def
  simple_def param_def lit_def

text \<open>
  The two functions, called from the top of the script with every line written.
  \<open>test_aws\<close> runs its two tests and returns 0. \<open>test_gspread_pandas\<close> ends the shell
  with status 1 before its first test when \<open>nounset\<close> is on and no \<open>_aws_cred_file\<close> is
  set; otherwise it runs its two tests and returns 0.
\<close>

lemma test_aws_call:
  assumes "frames s = []" and "globals s ''AWS_VOLUME'' = Some V" and "\<forall>k. out k = Written"
  shows "call (test_aws fs out) s =
           Cont (s\<lparr>echoed := echoed s @ missing fs aws_warning (V @ ''credentials'')
                              @ missing fs aws_warning (V @ ''config''),
                  status := 0,
                  echo_count := echo_count s + length (missing fs aws_warning (V @ ''credentials'')
                              @ missing fs aws_warning (V @ ''config'')),
                  tests_run := Suc (Suc (tests_run s))\<rparr>)"
  using assms by (simp add: test_aws_def cmd_defs missing_def)


lemma test_gspread_pandas_call:
  assumes "frames s = []" and "globals s ''GSPREAD_PANDAS_VOLUME'' = Some G"
      and "globals s ''_aws_cred_file'' \<noteq> None \<or> \<not> nounset s"
      and "\<forall>k. out k = Written"
  shows "call (test_gspread_pandas fs out) s =
           Cont (s\<lparr>echoed := echoed s
                      @ (if exists_path fs (tested_path s) then []
                         else [google_warning (G @ ''google_secret.json'')])
                      @ missing fs google_warning (G @ ''creds/default''),
                  status := 0,
                  echo_count := echo_count s
                      + length ((if exists_path fs (tested_path s) then []
                                 else [google_warning (G @ ''google_secret.json'')])
                                @ missing fs google_warning (G @ ''creds/default'')),
                  tests_run := Suc (Suc (tests_run s))\<rparr>)"
  using assms
  by (auto simp add: test_gspread_pandas_def cmd_defs missing_def tested_path_def split: option.splits)

text \<open>
  The script as a whole, with every line written: it runs to its end, through all four
  tests, unless an option or an unbound variable cuts it short.
\<close>

lemma run_to_the_end:
  assumes "\<not> brings_code env"
      and "set (shell_options env) \<subseteq> set modelled_options"
      and "''noexec'' \<notin> set (shell_options env)"
      and "''onecmd'' \<notin> set (shell_options env)"
      and "env ''HOME'' \<noteq> None \<or> ''nounset'' \<notin> set (shell_options env)"
      and "env ''_aws_cred_file'' \<noteq> None \<or> ''nounset'' \<notin> set (shell_options env)"
      and "\<forall>k. out k = Written"
  shows "check_credentials fs out env = Some (Cont
     \<lparr>globals = env(''AWS_VOLUME'' \<mapsto> home env @ ''/.aws/'',
                    ''GSPREAD_PANDAS_VOLUME'' \<mapsto> home env @ ''/.config/gspread_pandas/''),
      frames = [],
      echoed = warnings fs env,
      status = 0, errexit = True, nounset = (''nounset'' \<in> set (shell_options env)),
      echo_count = length (warnings fs env), tests_run = 4\<rparr>)"
  using assms
  by (auto simp add: top_defs test_aws_call test_gspread_pandas_call tested_path_def warnings_def
      path_defs split: option.splits)








text \<open>
  Two of the hypotheses cannot be dropped. A caller that exports \<open>_aws_cred_file\<close> with
  the path of a file that exists makes the first test of \<open>test_gspread_pandas\<close> fail, and
  the warning about the secret file is not echoed. A caller that passes \<open>nounset\<close> in
  \<open>SHELLOPTS\<close> makes the expansion of \<open>$_aws_cred_file\<close> an error: the script ends with
  status 1 after the two tests of \<open>test_aws\<close>, and with every file in place it has echoed
  nothing.
\<close>

lemma exported_aws_cred_file_silences_warning:
  assumes "\<not> brings_code env"
      and "set (shell_options env) \<subseteq> set plain_options"
      and "env ''_aws_cred_file'' = Some p" and "exists_path fs p"
      and "\<forall>k. out k = Written"
  shows "echoed_by (check_credentials fs out env)
           = Some (missing fs aws_warning (aws_cred_file env) @ missing fs aws_warning (aws_conf_file env)
                   @ missing fs google_warning (google_cred_file env))"
proof -
  from assms(2) have o: "set (shell_options env) \<subseteq> set modelled_options"
    "''nounset'' \<notin> set (shell_options env)"
    "''noexec'' \<notin> set (shell_options env)" "''onecmd'' \<notin> set (shell_options env)"
    by (auto simp add: plain_options_def modelled_options_def)
  show ?thesis
    using assms(1,3,4,5) o by (simp add: run_to_the_end echoed_by_def final_shell_def warnings_def)
qed

lemma nounset_stops_at_third_test:
  "exit_of_run (check_credentials every_file all_written home_u_nounset) = Some 1
   \<and> tests_of (check_credentials every_file all_written home_u_nounset) = Some 2
   \<and> echoed_by (check_credentials every_file all_written home_u_nounset) = Some []"
  by (simp add: check_credentials_def run_script_def brings_code_def shell_options_def
      modelled_options_def plain_options_def home_u_nounset_def init_shell_def set_e_def assign_def test_aws_def test_gspread_pandas_def
      cmd_defs every_file_def all_written_def exists_path_def exit_of_run_def tests_of_def
      echoed_by_def exit_status_def final_shell_def)




section \<open>Properties of the markdown linter script\<close>

lemma run_errexit_prefix: "\<exists>n. fst (run_errexit w cs) = take n cs"
proof (induction cs)
  case Nil show ?case by simp
next
  case (Cons c cs)
  then obtain n where n: "fst (run_errexit w cs) = take n cs" by blast
  show ?case
  proof (cases "checked c \<and> exit_of w (line c) (argv c) \<noteq> 0")
    case False
    then have "fst (run_errexit w (c # cs)) = c # fst (run_errexit w cs)" by auto
    then have "fst (run_errexit w (c # cs)) = take (Suc n) (c # cs)" using n by simp
    then show ?thesis by blast
  next
    case True
    then have "fst (run_errexit w (c # cs)) = take 1 (c # cs)" by simp
    then show ?thesis by blast
  qed
qed

lemma run_errexit_all: "run_errexit (all_succeed w) cs = (cs, 0)"
  by (induction cs) (simp_all add: all_succeed_def)

lemma map_filter_take_subset: "set (List.map_filter f (take n xs)) \<subseteq> set (List.map_filter f xs)"
  using set_take_subset [of n xs] by (auto simp: List.map_filter_def)

lemma images_run_commands: "images_run (lint_md_commands w args) = [''markdownlint:latest'']"
  by (simp add: images_run_def lint_md_commands_def List.map_filter_def Let_def image_ref_def
      cmd_def subst_def)

lemma images_built_commands: "images_built (lint_md_commands w args) = [image_ref DOCKER_CONTAINER_NAME]"
  by (simp add: images_built_def lint_md_commands_def List.map_filter_def Let_def TMP_FILENAME_def
      cmd_def subst_def)

lemma images_run_executed: "set (images_run (fst (lint_md w args))) \<subseteq> {''markdownlint:latest''}"
proof -
  obtain n where n: "fst (lint_md w args) = take n (lint_md_commands w args)"
    unfolding lint_md_def using run_errexit_prefix by blast
  have "set (images_run (take n (lint_md_commands w args))) \<subseteq> set (images_run (lint_md_commands w args))"
    unfolding images_run_def set_map by (rule image_mono) (rule map_filter_take_subset)
  then show ?thesis by (simp add: n images_run_commands)
qed

lemma images_built_executed: "set (images_built (fst (lint_md w args))) \<subseteq> {image_ref DOCKER_CONTAINER_NAME}"
proof -
  obtain n where n: "fst (lint_md w args) = take n (lint_md_commands w args)"
    unfolding lint_md_def using run_errexit_prefix by blast
  have "set (images_built (take n (lint_md_commands w args))) \<subseteq> set (images_built (lint_md_commands w args))"
    unfolding images_built_def set_map by (rule image_mono) (rule map_filter_take_subset)
  then show ?thesis by (simp add: n images_built_commands)
qed

lemma built_ref: "image_ref DOCKER_CONTAINER_NAME = ''sorrentum_mdlint:latest''"
  by (simp add: image_ref_def DOCKER_CONTAINER_NAME_def)

lemma lint_md_all_succeed: "fst (lint_md (all_succeed w) args) = lint_md_commands (all_succeed w) args"
  by (simp add: lint_md_def run_errexit_all)

text \<open>
  Claim C9. In every run of \<open>lint_md.sh\<close>, whatever its arguments and whatever the
  external commands do, the only image \<open>docker run\<close> is asked for is
  \<open>markdownlint:latest\<close>, the only image \<open>docker build\<close> tags is
  \<open>DOCKER_CONTAINER_NAME\<close>, that is \<open>sorrentum_mdlint:latest\<close>, and the image built is
  never an image run. When every command succeeds, both steps do take place: one image is
  built, and another one is run.
\<close>

theorem lint_md_runs_markdownlint_not_built_image:
  "image_ref DOCKER_CONTAINER_NAME = ''sorrentum_mdlint:latest''
   \<and> set (images_run (fst (lint_md w args))) \<subseteq> {''markdownlint:latest''}
   \<and> set (images_built (fst (lint_md w args))) \<subseteq> {image_ref DOCKER_CONTAINER_NAME}
   \<and> image_ref DOCKER_CONTAINER_NAME \<notin> set (images_run (fst (lint_md w args)))
   \<and> images_built (fst (lint_md (all_succeed w) args)) = [image_ref DOCKER_CONTAINER_NAME]
   \<and> images_run (fst (lint_md (all_succeed w) args)) = [''markdownlint:latest'']"
proof -
  have "image_ref DOCKER_CONTAINER_NAME \<notin> set (images_run (fst (lint_md w args)))"
    using images_run_executed [of w args] by (auto simp: built_ref)
  then show ?thesis
    by (intro conjI built_ref images_run_executed images_built_executed)
       (simp_all add: lint_md_all_succeed images_run_commands images_built_commands)
qed

section \<open>What the recorded run shows\<close>

text \<open>
  The functions that produced the record are not among the sources, so nothing below is a
  statement about \<open>OrderProcessor\<close>, \<open>RealTimeDagRunner\<close> or \<open>DatabasePortfolio\<close> in
  general: each lemma checks the one run that was recorded, and says what holds in it.
\<close>

text \<open>
  Every turn of the polling loop in the execution signature goes the same way: the
  processor polls \<open>submitted_orders\<close> until \<open>diff_num_rows\<close> is at least 1, which takes
  6 seconds, well within \<open>max_wait_time_for_order_in_secs\<close> (305 seconds); from that moment
  it waits \<open>_delay_to_accept_in_secs\<close> (3 seconds); the deadline it then waits for is the
  next bar boundary, with bars of \<open>bar_duration_in_secs\<close> (300 seconds); the fills are
  logged at the deadline and carry the deadline as their timestamp. There are seven such
  turns, and every fill of the log belongs to one of them. The record holds no turn in
  which the wait for a row comes near the maximum, so it does not show what the processor
  does then.
\<close>

lemma recorded_iteration_timing:
  "max_wait_time_for_order_in_secs order_processor_object = 305
   \<and> delay_to_accept_in_secs order_processor_object = 3
   \<and> order_processor.bar_duration_in_secs order_processor_object = 300
   \<and> snd (hd execution_signature) = Start
   \<and> length (iterations (tl execution_signature)) = 7
   \<and> (\<forall>it \<in> set (iterations (tl execution_signature)).
        polled_table it = ''submitted_orders''
      \<and> checked_at it = polled_at it
      \<and> polled_at it \<le> row_at it
      \<and> 1 \<le> diff_num_rows it
      \<and> row_at it - polled_at it \<le> max_wait_time_for_order_in_secs order_processor_object
      \<and> accepting_at it = row_at it
      \<and> accepting_delay it = delay_to_accept_in_secs order_processor_object
      \<and> accepted_at it = accepting_at it + delay_to_accept_in_secs order_processor_object
      \<and> deadline it
          = bar_floor (order_processor.bar_duration_in_secs order_processor_object) (accepted_at it)
            + order_processor.bar_duration_in_secs order_processor_object
      \<and> accepted_at it < deadline it
      \<and> fills_at it = deadline it
      \<and> fills it \<noteq> []
      \<and> (\<forall>f \<in> set (fills it). timestamp f = deadline it))
   \<and> all_fills execution_signature = concat (map fills (iterations (tl execution_signature)))"
  by (simp add: execution_signature_def clock_def bar_floor_def order_processor_object_def)

text \<open>
  Every \<open>is_done\<close> check of the log compares the two truncated times that it prints:
  \<open>termination_condition\<close> 10:10:05 appears as 10:10:00, and \<open>is_done\<close> is true exactly when
  \<open>wall_clock_time_tmp\<close> has reached it. A check that yields False is followed by the wait
  for orders, and the check that yields True by the exit. The checks stand at the seven
  bars 09:35:00 to 10:05:00 and at 10:10:00. After the seven turns the log ends with that
  check and the exit with \<open>target_list_id=7\<close>, and the three counters of the dumped object
  are 7.
\<close>

lemma recorded_exit_condition:
  "(\<forall>c \<in> set (checks execution_signature).
       check_termination_condition c = termination_condition order_processor_object
     \<and> termination_condition_tmp c
         = bar_floor (order_processor.bar_duration_in_secs order_processor_object)
             (termination_condition order_processor_object)
     \<and> termination_condition_tmp c = clock 10 10 0
     \<and> is_done c = (termination_condition_tmp c \<le> wall_clock_time_tmp c)
     \<and> is_exit (followed_by c) = is_done c
     \<and> is_waiting (followed_by c) = (\<not> is_done c))
   \<and> map wall_clock_time_tmp (checks execution_signature)
       = map checked_at (iterations (tl execution_signature)) @ [clock 10 10 0]
   \<and> map snd (after_iterations (tl execution_signature))
       = [IsDone (clock 10 10 0) (clock 10 10 5) (clock 10 10 0) True, ExitingLoop 7 (clock 10 10 5)]
   \<and> length (iterations (tl execution_signature)) = 7
   \<and> num_accepted_target_lists order_processor_object = 7
   \<and> num_accepted_orders order_processor_object = 7
   \<and> num_filled_orders order_processor_object = 7"
  by (simp add: execution_signature_def clock_def bar_floor_def order_processor_object_def)

lemma ball_1_to_7:
  "(\<forall>i \<in> {1..7::nat}. P i) = (P 1 \<and> P 2 \<and> P 3 \<and> P 4 \<and> P 5 \<and> P 6 \<and> P 7)"
proof
  assume "\<forall>i \<in> {1..7::nat}. P i"
  then show "P 1 \<and> P 2 \<and> P 3 \<and> P 4 \<and> P 5 \<and> P 6 \<and> P 7" by simp
next
  assume h: "P 1 \<and> P 2 \<and> P 3 \<and> P 4 \<and> P 5 \<and> P 6 \<and> P 7"
  show "\<forall>i \<in> {1..7::nat}. P i"
  proof
    fix i :: nat
    assume "i \<in> {1..7}"
    then have "1 \<le> i \<and> i \<le> 7" by simp
    then have "i = 1 \<or> i = 2 \<or> i = 3 \<or> i = 4 \<or> i = 5 \<or> i = 6 \<or> i = 7" by arith
    with h show "P i" by blast
  qed
qed

lemma all_below_6: "(\<forall>i<6::nat. P i) = (P 0 \<and> P 1 \<and> P 2 \<and> P 3 \<and> P 4 \<and> P 5)"
proof
  assume "\<forall>i<6::nat. P i"
  then show "P 0 \<and> P 1 \<and> P 2 \<and> P 3 \<and> P 4 \<and> P 5" by simp
next
  assume h: "P 0 \<and> P 1 \<and> P 2 \<and> P 3 \<and> P 4 \<and> P 5"
  show "\<forall>i<6::nat. P i"
  proof (intro allI impI)
    fix i :: nat
    assume "i < 6"
    then have "i = 0 \<or> i = 1 \<or> i = 2 \<or> i = 3 \<or> i = 4 \<or> i = 5" by arith
    with h show "P i" by blast
  qed
qed

text \<open>
  The DAG runner recorded seven events; for \<open>i\<close> from 1 to 7 the \<open>i\<close>-th has
  \<open>num_it = i\<close> and \<open>current_time\<close> 09:35:00 plus \<open>i - 1\<close> bars of
  \<open>bar_duration_in_secs\<close> (300 seconds). Consecutive events are one bar apart and every
  event is on a bar boundary.
\<close>

lemma recorded_events_on_bars:
  "length events = 7
   \<and> (\<forall>i \<in> {1..7}.
         num_it (events ! (i - 1)) = i
       \<and> current_time (events ! (i - 1))
           = clock 9 35 0 + (int i - 1) * bar_duration_in_secs dag_runner_config_object)
   \<and> (\<forall>i<6. current_time (events ! Suc i) - current_time (events ! i)
               = bar_duration_in_secs dag_runner_config_object)
   \<and> (\<forall>e \<in> set events. current_time e mod bar_duration_in_secs dag_runner_config_object = 0)"
  unfolding ball_1_to_7 all_below_6
  by (simp add: events_def clock_def dag_runner_config_object_def)

text \<open>
  The order processor filled seven orders, but the ledger of executed trades has six
  non-zero rows: the last fill, at 10:10:00, has no snapshot of its bar, because the last
  snapshot of the portfolio is the one of 10:05:05.1.
\<close>

lemma recorded_seventh_fill_has_no_snapshot:
  "num_filled_orders order_processor_object \<noteq> length (nonzero_rows executed_trades_shares)
   \<and> length (all_fills execution_signature) \<noteq> length (nonzero_rows executed_trades_shares)
   \<and> num_filled_orders order_processor_object = 7
   \<and> length (all_fills execution_signature) = 7
   \<and> length (nonzero_rows executed_trades_shares) = 6
   \<and> fill_id (last (all_fills execution_signature)) = 6
   \<and> timestamp (last (all_fills execution_signature)) = clock 10 10 0
   \<and> snapshot_of_bar executed_trades_shares (clock 10 10 0) = None"
  by (simp add: execution_signature_def executed_trades_shares_def nonzero_rows_def clock_def
      bar_floor_def order_processor_object_def)

text \<open>
  The configuration of the run accounts for it. The DAG runner is given 2100 seconds from
  09:35:00, seven bars, and its last event is one bar before 10:10:00; the order processor
  is given 2105 seconds, so it is still there at 10:10:00 to fill the order that the
  seventh bar submitted.
\<close>

lemma order_processor_outlasts_dag_runner:
  "start_timestamp order_processor_object + rt_timeout_in_secs_or_time dag_runner_config_object
     = clock 10 10 0
   \<and> current_time (last events) + bar_duration_in_secs dag_runner_config_object = clock 10 10 0
   \<and> start_timestamp order_processor_object + duration_in_secs order_processor_config_object
     = termination_condition order_processor_object
   \<and> timestamp (last (all_fills execution_signature)) = end_timestamp order_processor_object"
  by (simp add: order_processor_object_def dag_runner_config_object_def events_def clock_def
      order_processor_config_object_def execution_signature_def)

text \<open>
  A fill logged no later than the last event of the DAG runner (10:05:00) is the executed
  trade of the snapshot of its bar: the row of \<open>executed_trades_shares\<close> stamped in that
  bar shows the fill's signed quantity to two decimals. A fill logged later has no
  snapshot. The fills are at the bars of the second to the seventh event and at 10:10:00,
  so the ledger has as many non-zero rows as the DAG runner has events after the first,
  one fewer than there are filled orders.
\<close>

lemma recorded_fills_in_ledger:
  "(\<forall>f \<in> set (all_fills execution_signature).
       (timestamp f \<le> current_time (last events) \<longrightarrow>
          (case snapshot_of_bar executed_trades_shares (timestamp f) of
             Some v \<Rightarrow> same_to_2_decimals v (num_shares f)
           | None \<Rightarrow> False))
     \<and> (current_time (last events) < timestamp f \<longrightarrow>
          snapshot_of_bar executed_trades_shares (timestamp f) = None))
   \<and> map timestamp (all_fills execution_signature) = map current_time (tl events) @ [clock 10 10 0]
   \<and> length (nonzero_rows executed_trades_shares) = length (tl events)
   \<and> length (all_fills execution_signature) = length (nonzero_rows executed_trades_shares) + 1"
  by (simp add: execution_signature_def executed_trades_shares_def nonzero_rows_def clock_def
      bar_floor_def events_def same_to_2_decimals_def)

end
